theory Spec2Isabelle
  imports Complex_Main "HOL-Library.Char_ord" "HOL-Library.List_Lexorder" "HOL-Library.Log_Nat"
begin

section \<open>Python strings\<close>

text \<open>
  A Python \<open>str\<close> is a sequence of code points. The model keeps the code points below
  256 (Latin-1), one \<^typ>\<open>char\<close> each, so \<^const>\<open>length\<close> is Python's \<open>len\<close>.
  On that range \<open>str.isspace\<close> holds for U+0009..U+000D, U+001C..U+0020, U+0085 and
  U+00A0, and \<open>str.lower\<close> adds 32 to A..Z and to U+00C0..U+00DE except U+00D7.
\<close>

definition is_space :: "char \<Rightarrow> bool" where
  "is_space c = (let n = (of_char c :: nat) in
     (9 \<le> n \<and> n \<le> 13) \<or> (28 \<le> n \<and> n \<le> 32) \<or> n = 133 \<or> n = 160)"

definition lower_char :: "char \<Rightarrow> char" where
  "lower_char c = (let n = (of_char c :: nat) in
     if (65 \<le> n \<and> n \<le> 90) \<or> (192 \<le> n \<and> n \<le> 222 \<and> n \<noteq> 215)
     then char_of (n + 32) else c)"

definition py_lower :: "string \<Rightarrow> string" where
  "py_lower s = map lower_char s"

definition py_strip :: "string \<Rightarrow> string" where
  "py_strip s = rev (dropWhile is_space (rev (dropWhile is_space s)))"

text \<open>\<open>str.split()\<close> without arguments: maximal runs of non-whitespace, in order.\<close>

fun split_acc :: "string \<Rightarrow> string \<Rightarrow> string list" where
  "split_acc cur [] = (if cur = [] then [] else [cur])"
| "split_acc cur (c # cs) =
     (if is_space c then (if cur = [] then split_acc [] cs else cur # split_acc [] cs)
      else split_acc (cur @ [c]) cs)"

definition py_split :: "string \<Rightarrow> string list" where
  "py_split s = split_acc [] s"

text \<open>\<open>sep.join(parts)\<close>.\<close>

fun py_join :: "string \<Rightarrow> string list \<Rightarrow> string" where
  "py_join sep [] = []"
| "py_join sep [x] = x"
| "py_join sep (x # y # ys) = x @ sep @ py_join sep (y # ys)"

text \<open>\<open>str(n)\<close> for an integer, as an f-string renders it.\<close>

fun str_nat :: "nat \<Rightarrow> string" where
  "str_nat n = (if n < 10 then [char_of (48 + n)]
                else str_nat (n div 10) @ [char_of (48 + n mod 10)])"

definition str_int :: "int \<Rightarrow> string" where
  "str_int i = (if i < 0 then CHR ''-'' # str_nat (nat (- i)) else str_nat (nat i))"

text \<open>\<open>enumerate(xs, start)\<close>.\<close>

fun enumerate_from :: "nat \<Rightarrow> 'a list \<Rightarrow> (nat \<times> 'a) list" where
  "enumerate_from n [] = []"
| "enumerate_from n (x # xs) = (n, x) # enumerate_from (Suc n) xs"

text \<open>
  A slice \<open>xs[i:j]\<close>: a negative bound counts from the end, and both bounds are clamped
  to the sequence.
\<close>

definition slice_bound :: "int \<Rightarrow> nat \<Rightarrow> nat" where
  "slice_bound i n = (if i < 0 then nat (max 0 (i + int n)) else min (nat i) n)"

definition py_slice :: "'a list \<Rightarrow> int \<Rightarrow> int \<Rightarrow> 'a list" where
  "py_slice xs i j =
     (let a = slice_bound i (length xs); b = slice_bound j (length xs)
      in take (b - a) (drop a xs))"

section \<open>Numbers\<close>

text \<open>
  Similarity scores are Python floats. The model computes with exact rationals: every
  float is a rational, and \<open>round(x, 2)\<close> returns the multiple of 1/100 nearest to
  \<open>x\<close>, a tie going to the even multiple. This is an idealisation. It keeps the order
  of the operations and the bounds of their results, and it is exact where no float
  arithmetic happens (the short-circuit, an empty result). The rounding error of float
  addition and division is not modelled, so the last digit of a computed mean is not
  given: for the scores 0.01 and 0.02 the float mean falls just below 0.015 and the code
  returns 0.01, where the exact mean rounds to 0.02. The section on binary64 arithmetic
  below computes the confidence as the interpreter does.
\<close>

definition round_half_even :: "rat \<Rightarrow> int" where
  "round_half_even x =
     (let f = \<lfloor>x\<rfloor>; r = x - of_int f
      in if r < 1 / 2 then f else if 1 / 2 < r then f + 1
         else if even f then f else f + 1)"

definition py_round :: "rat \<Rightarrow> nat \<Rightarrow> rat" where
  "py_round x ndigits = of_int (round_half_even (x * 10 ^ ndigits)) / 10 ^ ndigits"

section \<open>The query endpoint (main.py)\<close>

datatype pvalue = PStr string | PInt int

type_synonym payload = "(string \<times> pvalue) list"

type_synonym vector = "rat list"

record scored_point =
  point_id :: string
  score :: rat
  payload :: payload

record source =
  src_id :: string
  src_score :: rat
  src_text :: pvalue
  metadata :: payload

record response =
  answer :: string
  sources :: "source list"
  confidence :: rat

record QueryRequest =
  question :: string
  max_results :: "int option"
  selected_text :: "string option"

record generation_config =
  temperature :: rat
  max_output_tokens :: int

record settings =
  COLLECTION_NAME :: string
  TEMPERATURE :: rat
  MAX_TOKENS :: int

datatype http_exception = HTTPException int string

text \<open>
  The three collaborators are reached through client objects. A call either returns or
  raises; the model gives each call the result \<open>Inl message\<close> (the text of the exception)
  or \<open>Inr value\<close>, and the endpoint records every call it makes.
\<close>

datatype call =
  EmbeddingsCreate string string
| QueryPoints string vector "int option"
| GenerateContent string generation_config

record providers =
  embeddings_create :: "string \<Rightarrow> string \<Rightarrow> string + vector"
  query_points :: "string \<Rightarrow> vector \<Rightarrow> int option \<Rightarrow> string + scored_point list"
  generate_content :: "string \<Rightarrow> generation_config \<Rightarrow> string + string"

definition vague_inputs :: "string list" where
  "vague_inputs = [''hi'', ''hello'', ''hey'', ''ji'', ''yes'', ''no'', ''ok'', ''okay'',
     ''thanks'', ''thank you'']"

definition greeting :: string where
  "greeting = ''Hello! I'm your AI assistant for the Physical AI & Humanoid Robotics Lab textbook. What would you like to learn about? You can ask me about ROS 2, Gazebo simulation, Isaac Sim, humanoid robotics, or hardware setup.''"

definition payload_get :: "payload \<Rightarrow> string \<Rightarrow> pvalue \<Rightarrow> pvalue" where
  "payload_get p k d = (case map_of p k of None \<Rightarrow> d | Some v \<Rightarrow> v)"

definition truthy :: "pvalue \<Rightarrow> bool" where
  "truthy v = (case v of PStr s \<Rightarrow> s \<noteq> [] | PInt i \<Rightarrow> i \<noteq> 0)"

definition format_value :: "pvalue \<Rightarrow> string" where
  "format_value v = (case v of PStr s \<Rightarrow> s | PInt i \<Rightarrow> str_int i)"

definition context_part :: "nat \<Rightarrow> scored_point \<Rightarrow> string" where
  "context_part i hit =
     (let text = payload_get (payload hit) ''text'' (PStr '''');
          module = payload_get (payload hit) ''module'' (PStr '''');
          file_name = payload_get (payload hit) ''file'' (PStr '''');
          source_info = (if truthy module
                         then ''['' @ format_value module @ '' - '' @ format_value file_name @ '']''
                         else '''')
      in ''[Source '' @ str_nat i @ '' '' @ source_info @ '']: '' @ format_value text)"

definition source_of :: "scored_point \<Rightarrow> source" where
  "source_of hit =
     \<lparr>src_id = point_id hit, src_score = score hit,
      src_text = payload_get (payload hit) ''text'' (PStr ''''),
      metadata = filter (\<lambda>(k, v). k \<noteq> ''text'') (payload hit)\<rparr>"

definition newline :: string where
  "newline = [CHR 0x0A]"

definition build_context :: "scored_point list \<Rightarrow> string option \<Rightarrow> string" where
  "build_context search_results selected =
     (let context = py_join (newline @ newline)
                      (map (\<lambda>(i, hit). context_part i hit) (enumerate_from 1 search_results))
      in case selected of
           None \<Rightarrow> context
         | Some s \<Rightarrow>
             if s = [] then context
             else ''Selected Text by User:'' @ newline @ s @ newline @ newline
                  @ ''Relevant Textbook Content:'' @ newline @ context)"

definition system_prompt :: string where
  \<open>system_prompt =
     ''You are an expert AI assistant for the Physical AI & Humanoid Robotics Lab textbook.'' @ newline
   @ ''Your role is to help students learn about robotics, ROS 2, simulation, and AI control systems based on the textbook content.'' @ newline
   @ newline
   @ ''Guidelines:'' @ newline
   @ ''- Answer based ONLY on the provided context from the textbook.'' @ newline
   @ ''- Be precise, technical, and educational.'' @ newline
   @ ''- If the context doesn't contain relevant information, say: "I don't have specific information about that in the textbook. Could you ask about ROS 2, Gazebo, Isaac Sim, or hardware setup?"'' @ newline
   @ ''- Use clear, conversational language.'' @ newline
   @ ''- Cite specific information from the context where appropriate.'' @ newline
   @ ''- Keep answers focused and relevant to the question.''\<close>

definition user_prompt :: "string \<Rightarrow> string \<Rightarrow> string" where
  "user_prompt context q =
     ''Context from the textbook:'' @ newline @ context @ newline @ newline
   @ ''Question: '' @ q @ newline @ newline
   @ ''Please provide a detailed answer based on the context above.''"

text \<open>
  \<open>sum(s["score"] for s in sources) / len(sources) if sources else 0\<close>.
\<close>

definition avg_score :: "rat list \<Rightarrow> rat" where
  "avg_score scores =
     (if scores \<noteq> [] then sum_list scores / of_nat (length scores) else 0)"

text \<open>
  The prompt sent to the generation provider and its parameters, as the endpoint builds
  them from the search results, the request and the settings.
\<close>

definition combined_prompt :: "scored_point list \<Rightarrow> QueryRequest \<Rightarrow> string" where
  "combined_prompt search_results request =
     system_prompt @ newline @ newline
     @ user_prompt (build_context search_results (selected_text request)) (question request)"

definition generation_config_of :: "settings \<Rightarrow> generation_config" where
  "generation_config_of cfg =
     \<lparr>temperature = TEMPERATURE cfg, max_output_tokens = MAX_TOKENS cfg\<rparr>"

text \<open>
  The endpoint. Its whole body is inside \<open>try\<close>; the handler turns any exception into
  \<open>HTTPException(status_code=500, detail=str(e))\<close>.
\<close>

definition query_chatbot ::
  "providers \<Rightarrow> settings \<Rightarrow> QueryRequest \<Rightarrow> (http_exception + response) \<times> call list" where
  "query_chatbot env cfg request =
     (if py_strip (py_lower (question request)) \<in> set vague_inputs
      then (Inr \<lparr>answer = greeting, sources = [], confidence = 1\<rparr>, [])
      else
        let c1 = EmbeddingsCreate ''text-embedding-3-small'' (question request) in
        case embeddings_create env ''text-embedding-3-small'' (question request) of
          Inl e \<Rightarrow> (Inl (HTTPException 500 e), [c1])
        | Inr question_embedding \<Rightarrow>
           (let c2 = QueryPoints (COLLECTION_NAME cfg) question_embedding (max_results request) in
            case query_points env (COLLECTION_NAME cfg) question_embedding (max_results request) of
              Inl e \<Rightarrow> (Inl (HTTPException 500 e), [c1, c2])
            | Inr search_results \<Rightarrow>
               (let srcs = map source_of search_results;
                    prompt = combined_prompt search_results request;
                    config = generation_config_of cfg;
                    c3 = GenerateContent prompt config
                in case generate_content env prompt config of
                     Inl e \<Rightarrow> (Inl (HTTPException 500 e), [c1, c2, c3])
                   | Inr a \<Rightarrow>
                       (Inr \<lparr>answer = a, sources = srcs,
                             confidence = py_round (avg_score (map src_score srcs)) 2\<rparr>,
                        [c1, c2, c3]))))"

section \<open>The embedding service (services/embedding_service.py)\<close>

text \<open>
  \<open>chunk_size\<close> and \<open>chunk_overlap\<close> are read from the environment with \<open>int(...)\<close>:
  any two integers. The tokenizer is the tiktoken library, taken as a parameter.
\<close>

record EmbeddingService =
  model :: string
  chunk_size :: int
  chunk_overlap :: int

record encoding =
  encode :: "string \<Rightarrow> nat list"
  decode :: "nat list \<Rightarrow> string"

text \<open>
  The \<open>while\<close> loop of \<open>chunk_text\<close>, with \<open>tokens\<close>, \<open>start\<close> and \<open>chunks\<close> as its
  state. The loop has no bound of its own, so the result is an option: \<open>None\<close> is a
  run that never leaves the loop. The decoder is a parameter of the loop; with the
  identity in its place the loop yields the token windows themselves.
\<close>

partial_function (option) chunk_loop ::
  "('t list \<Rightarrow> 'c) \<Rightarrow> int \<Rightarrow> int \<Rightarrow> 't list \<Rightarrow> int \<Rightarrow> 'c list \<Rightarrow> 'c list option" where
  "chunk_loop dec csize coverlap tokens start chunks =
     (if start < int (length tokens)
      then (let end' = start + csize;
                chunk_tokens = py_slice tokens start end'
            in chunk_loop dec csize coverlap tokens (end' - coverlap) (chunks @ [dec chunk_tokens]))
      else Some chunks)"

declare chunk_loop.simps [code]

definition chunk_text :: "EmbeddingService \<Rightarrow> encoding \<Rightarrow> string \<Rightarrow> string list option" where
  "chunk_text self enc text =
     chunk_loop (decode enc) (chunk_size self) (chunk_overlap self) (encode enc text) 0 []"

definition chunk_windows :: "EmbeddingService \<Rightarrow> nat list \<Rightarrow> nat list list option" where
  "chunk_windows self tokens =
     chunk_loop (\<lambda>ts. ts) (chunk_size self) (chunk_overlap self) tokens 0 []"

text \<open>
  The method as its caller meets it, with the ways the tokenizer can raise. The lookup
  \<open>tiktoken.encoding_for_model("gpt-4")\<close> may fail, and \<open>encode\<close> with its default
  \<open>disallowed_special="all"\<close> first searches the text for a special token (such as
  \<open><|endoftext|>\<close>) and raises \<open>ValueError\<close> when it finds one; only then does it
  encode. \<open>Some (Inl e)\<close> is a raised exception, \<open>Some (Inr chunks)\<close> a normal return
  and \<open>None\<close> a call that never returns. The second component records the calls made
  to the embedding provider through \<open>self.client\<close>; the method makes none.
\<close>

record tiktoken =
  encoding_for_model :: "string \<Rightarrow> string + encoding"
  disallowed_special :: "encoding \<Rightarrow> string \<Rightarrow> string option"

definition chunk_text_call ::
  "tiktoken \<Rightarrow> EmbeddingService \<Rightarrow> string \<Rightarrow> (string + string list) option \<times> call list" where
  "chunk_text_call tk self text =
     (case encoding_for_model tk ''gpt-4'' of
        Inl e \<Rightarrow> (Some (Inl e), [])
      | Inr enc \<Rightarrow>
         (case disallowed_special tk enc text of
            Some e \<Rightarrow> (Some (Inl e), [])
          | None \<Rightarrow> (map_option Inr (chunk_text self enc text), [])))"

section \<open>The RAG service (services/rag_service.py)\<close>

record RAGService =
  collection_name :: string
  chat_model :: string
  max_tokens :: int
  svc_temperature :: rat

record rag_providers =
  rag_embeddings_create :: "string \<Rightarrow> string \<Rightarrow> string + vector"
  search :: "string \<Rightarrow> vector \<Rightarrow> int \<Rightarrow> string + scored_point list"
  chat_completions_create ::
    "string \<Rightarrow> (string \<times> string) list \<Rightarrow> int \<Rightarrow> rat \<Rightarrow> string + string"

definition create_embedding :: "rag_providers \<Rightarrow> EmbeddingService \<Rightarrow> string \<Rightarrow> string + vector" where
  "create_embedding env emb text = rag_embeddings_create env (model emb) text"

definition search_similar ::
  "rag_providers \<Rightarrow> RAGService \<Rightarrow> vector \<Rightarrow> int \<Rightarrow> string + source list" where
  "search_similar env self query_embedding limit =
     (case search env (collection_name self) query_embedding limit of
        Inl e \<Rightarrow> Inl e
      | Inr results \<Rightarrow> Inr (map source_of results))"

definition rag_system_prompt :: string where
  \<open>rag_system_prompt =
     ''You are an expert AI assistant for the Physical AI & Humanoid Robotics Lab textbook.'' @ newline
   @ ''Your role is to answer questions accurately based on the provided context from the book.'' @ newline
   @ newline
   @ ''Guidelines:'' @ newline
   @ ''- Answer based ONLY on the provided context'' @ newline
   @ ''- Be precise and technical when appropriate'' @ newline
   @ ''- If the context doesn't contain enough information, say so'' @ newline
   @ ''- Cite sources when possible'' @ newline
   @ ''- Use clear, educational language''\<close>

definition rag_context :: "source list \<Rightarrow> string option \<Rightarrow> string" where
  "rag_context similar_chunks additional_context =
     (let context = py_join (newline @ newline)
                      (map (\<lambda>(i, chunk). ''[Source '' @ str_nat i @ '']: ''
                                          @ format_value (src_text chunk))
                           (enumerate_from 1 similar_chunks))
      in case additional_context of
           None \<Rightarrow> context
         | Some s \<Rightarrow>
             if s = [] then context
             else ''Selected Text:'' @ newline @ s @ newline @ newline @ context)"

text \<open>\<open>RAGService.query\<close> has no handler: an exception of a collaborator leaves it.\<close>

definition rag_query ::
  "rag_providers \<Rightarrow> RAGService \<Rightarrow> EmbeddingService \<Rightarrow> string \<Rightarrow> int \<Rightarrow> string option
     \<Rightarrow> string + response" where
  "rag_query env self embedding_service q limit additional_context =
     (case create_embedding env embedding_service q of
        Inl e \<Rightarrow> Inl e
      | Inr question_embedding \<Rightarrow>
         (case search_similar env self question_embedding limit of
            Inl e \<Rightarrow> Inl e
          | Inr similar_chunks \<Rightarrow>
             (let context = rag_context similar_chunks additional_context;
                  messages = [(''system'', rag_system_prompt),
                              (''user'', user_prompt context q)]
              in case chat_completions_create env (chat_model self) messages
                        (max_tokens self) (svc_temperature self) of
                   Inl e \<Rightarrow> Inl e
                 | Inr a \<Rightarrow>
                     Inr \<lparr>answer = a, sources = similar_chunks,
                          confidence = py_round (avg_score (map src_score similar_chunks)) 2\<rparr>)))"

section \<open>The ingestion driver (simple_upload.py)\<close>

text \<open>
  \<open>chunk_text(text, size)\<close> of the uploader: words are collected until their lengths,
  one more for each, reach \<open>size\<close>.
\<close>

fun chunk_words ::
  "int \<Rightarrow> string list \<Rightarrow> string list \<Rightarrow> int \<Rightarrow> string list \<Rightarrow> string list" where
  "chunk_words sz [] current current_size chunks =
     (if current \<noteq> [] then chunks @ [py_join '' '' current] else chunks)"
| "chunk_words sz (word # words) current current_size chunks =
     (let current' = current @ [word];
          current_size' = current_size + (int (length word) + 1)
      in if current_size' \<ge> sz
         then chunk_words sz words [] 0 (chunks @ [py_join '' '' current'])
         else chunk_words sz words current' current_size' chunks)"

definition upload_chunk_text :: "string \<Rightarrow> int \<Rightarrow> string list" where
  "upload_chunk_text text sz = chunk_words sz (py_split text) [] 0 []"

text \<open>
  A path is the list of its components, which is what pathlib compares. \<open>name\<close> is the
  last component; \<open>stem\<close> drops the last suffix of the name, when there is one.
\<close>

type_synonym path = "string list"

definition path_name :: "path \<Rightarrow> string" where
  "path_name p = (if p = [] then [] else last p)"

definition rfind_dot :: "string \<Rightarrow> nat option" where
  "rfind_dot s =
     (let k = length (takeWhile (\<lambda>c. c \<noteq> CHR ''.'') (rev s))
      in if k = length s then None else Some (length s - 1 - k))"

definition path_stem :: "path \<Rightarrow> string" where
  "path_stem p =
     (let name = path_name p
      in case rfind_dot name of
           None \<Rightarrow> name
         | Some i \<Rightarrow> if 0 < i \<and> i < length name - 1 then take i name else name)"

record PointStruct =
  ps_id :: string
  ps_vector :: vector
  ps_payload :: payload

text \<open>
  What the uploader reaches outside itself: the file system, the embedding provider, the
  vector index and the random identifiers of \<open>uuid4\<close> (read here from a table indexed by
  document and chunk position). \<open>clean_content\<close> rewrites the text with regular
  expressions of the \<open>re\<close> library and ends with \<open>strip()\<close>; the uploader only measures
  its result, and the model takes the function as given.
\<close>

record upload_env =
  read_text :: "path \<Rightarrow> string + string"
  clean_content :: "string \<Rightarrow> string"
  up_embeddings_create :: "string \<Rightarrow> string \<Rightarrow> string + vector"
  uuid4 :: "path \<Rightarrow> nat \<Rightarrow> string"
  upsert :: "string \<Rightarrow> PointStruct list \<Rightarrow> PointStruct list \<Rightarrow> string + PointStruct list"
  up_collection :: string

text \<open>The \<open>for\<close> loop of \<open>upload_file\<close> over \<open>enumerate(chunks)\<close>.\<close>

fun embed_chunks ::
  "upload_env \<Rightarrow> path \<Rightarrow> (nat \<times> string) list \<Rightarrow> PointStruct list \<Rightarrow> string + PointStruct list" where
  "embed_chunks env file_path [] points = Inr points"
| "embed_chunks env file_path ((i, chunk) # rest) points =
     (case up_embeddings_create env ''text-embedding-3-small'' chunk of
        Inl e \<Rightarrow> Inl e
      | Inr embedding \<Rightarrow>
          embed_chunks env file_path rest
            (points @ [\<lparr>ps_id = uuid4 env file_path i, ps_vector = embedding,
                        ps_payload = [(''text'', PStr chunk),
                                      (''doc_id'', PStr (path_stem file_path)),
                                      (''file'', PStr (path_name file_path)),
                                      (''chunk_index'', PInt (int i))]\<rparr>]))"

text \<open>
  The body of the \<open>try\<close> in \<open>upload_file\<close>: \<open>Inl\<close> is an exception raised inside it,
  \<open>Inr\<close> the returned count with the index as the upload leaves it.
\<close>

definition upload_file_body ::
  "upload_env \<Rightarrow> path \<Rightarrow> PointStruct list \<Rightarrow> string + (nat \<times> PointStruct list)" where
  "upload_file_body env file_path store =
     (case read_text env file_path of
        Inl e \<Rightarrow> Inl e
      | Inr content \<Rightarrow>
         (let cleaned = clean_content env content
          in if length cleaned < 50 then Inr (0, store)
             else
               (let chunks = upload_chunk_text cleaned 1000
                in case embed_chunks env file_path (enumerate_from 0 chunks) [] of
                     Inl e \<Rightarrow> Inl e
                   | Inr points \<Rightarrow>
                      (case upsert env (up_collection env) points store of
                         Inl e \<Rightarrow> Inl e
                       | Inr store' \<Rightarrow> Inr (length points, store')))))"

text \<open>\<open>except Exception\<close>: the error is printed and the count is 0.\<close>

definition upload_file :: "upload_env \<Rightarrow> path \<Rightarrow> PointStruct list \<Rightarrow> nat \<times> PointStruct list" where
  "upload_file env file_path store =
     (case upload_file_body env file_path store of
        Inl e \<Rightarrow> (0, store)
      | Inr r \<Rightarrow> r)"

text \<open>The loop of \<open>main\<close> over the sorted files, with the running \<open>total\<close>.\<close>

fun main_loop ::
  "upload_env \<Rightarrow> path list \<Rightarrow> nat \<Rightarrow> PointStruct list \<Rightarrow> nat \<times> PointStruct list" where
  "main_loop env [] tot store = (tot, store)"
| "main_loop env (file # files) tot store =
     (let (count, store') = upload_file env file store
      in main_loop env files (tot + count) store')"

definition main :: "upload_env \<Rightarrow> path list \<Rightarrow> PointStruct list \<Rightarrow> nat \<times> PointStruct list" where
  "main env files store = main_loop env (sort files) 0 store"

section \<open>Binary64 arithmetic\<close>

text \<open>
  The confidence once more, now as the interpreter computes it. A Python float is an
  IEEE 754 binary64 number: a finite one is a rational \<open>m * 2^e\<close> with \<open>|m| < 2^53\<close> and
  \<open>-1074 \<le> e \<le> 971\<close>. Every arithmetic operation returns the double nearest to the
  exact result, a tie going to the even significand, and an infinity when that is
  \<open>2^1024\<close> or more in size.
  The two zeros are not told apart (they compare equal).
\<close>

datatype double = Finite rat | PosInf | NegInf | NaN

text \<open>For \<open>x > 0\<close>, the \<open>k\<close> with \<open>2^k \<le> x < 2^(k+1)\<close>.\<close>

definition floor_log2 :: "rat \<Rightarrow> int" where
  "floor_log2 x =
     (let (p, q) = quotient_of x;
          d = bitlen p - bitlen q
      in if 2 powi d \<le> x then d else d - 1)"

text \<open>The spacing of the doubles around \<open>x\<close> is \<open>2^(ulp_exp x)\<close>.\<close>

definition ulp_exp :: "rat \<Rightarrow> int" where
  "ulp_exp x = max (- 1074) (floor_log2 \<bar>x\<bar> - 52)"

definition fl :: "rat \<Rightarrow> double" where
  "fl x =
     (if x = 0 then Finite 0
      else
        let q = 2 powi (ulp_exp x);
            r = of_int (round_half_even (x / q)) * q
        in if 2 ^ 1024 \<le> r then PosInf
           else if r \<le> - (2 ^ 1024) then NegInf
           else Finite r)"

text \<open>\<open>a + b\<close> on floats.\<close>

fun float_add :: "double \<Rightarrow> double \<Rightarrow> double" where
  "float_add (Finite a) (Finite b) = fl (a + b)"
| "float_add NaN y = NaN"
| "float_add x NaN = NaN"
| "float_add (Finite a) y = y"
| "float_add x (Finite b) = x"
| "float_add PosInf PosInf = PosInf"
| "float_add NegInf NegInf = NegInf"
| "float_add PosInf NegInf = NaN"
| "float_add NegInf PosInf = NaN"

text \<open>
  \<open>sum(...)\<close> over floats: the start value is the integer 0, and each score is added to
  the running sum in turn (CPython up to 3.11; later versions also carry a correction
  term for the rounding errors of the additions).
\<close>

fun py_sum :: "double \<Rightarrow> rat list \<Rightarrow> double" where
  "py_sum acc [] = acc"
| "py_sum acc (x # xs) = py_sum (float_add acc (Finite x)) xs"

text \<open>
  \<open>x / n\<close> for a float \<open>x\<close> and an integer \<open>n > 0\<close>: the integer is converted to a float
  first, which raises \<open>OverflowError\<close> when it is too large.
\<close>

definition float_div_pos :: "double \<Rightarrow> rat \<Rightarrow> double" where
  "float_div_pos x b =
     (case x of Finite a \<Rightarrow> fl (a / b) | PosInf \<Rightarrow> PosInf | NegInf \<Rightarrow> NegInf | NaN \<Rightarrow> NaN)"

definition float_div_int :: "double \<Rightarrow> nat \<Rightarrow> string + double" where
  "float_div_int x n =
     (case fl (of_nat n) of
        Finite b \<Rightarrow> Inr (float_div_pos x b)
      | _ \<Rightarrow> Inl ''int too large to convert to float'')"

text \<open>
  \<open>round(x, 2)\<close> on a float: the decimal with two places nearest to the exact value of
  \<open>x\<close> (a tie to the even last digit), converted back to a float; infinities and NaN
  round to themselves.
\<close>

definition float_round2 :: "double \<Rightarrow> double" where
  "float_round2 x = (case x of Finite a \<Rightarrow> fl (py_round a 2) | _ \<Rightarrow> x)"

text \<open>
  \<open>round(sum(...) / len(sources) if sources else 0, 2)\<close>, lines 348 and 353 of main.py
  and 160 and 165 of rag_service.py.
\<close>

definition confidence_of :: "rat list \<Rightarrow> string + double" where
  "confidence_of scores =
     (if scores \<noteq> []
      then (case float_div_int (py_sum (Finite 0) scores) (length scores) of
              Inl e \<Rightarrow> Inl e
            | Inr avg \<Rightarrow> Inr (float_round2 avg))
      else Inr (Finite 0))"

record response64 =
  answer64 :: string
  sources64 :: "source list"
  confidence64 :: double

text \<open>The endpoint and \<open>RAGService.query\<close> with the confidence in binary64.\<close>

definition query_chatbot64 ::
  "providers \<Rightarrow> settings \<Rightarrow> QueryRequest \<Rightarrow> (http_exception + response64) \<times> call list" where
  "query_chatbot64 env cfg request =
     (if py_strip (py_lower (question request)) \<in> set vague_inputs
      then (Inr \<lparr>answer64 = greeting, sources64 = [], confidence64 = Finite 1\<rparr>, [])
      else
        let c1 = EmbeddingsCreate ''text-embedding-3-small'' (question request) in
        case embeddings_create env ''text-embedding-3-small'' (question request) of
          Inl e \<Rightarrow> (Inl (HTTPException 500 e), [c1])
        | Inr question_embedding \<Rightarrow>
           (let c2 = QueryPoints (COLLECTION_NAME cfg) question_embedding (max_results request) in
            case query_points env (COLLECTION_NAME cfg) question_embedding (max_results request) of
              Inl e \<Rightarrow> (Inl (HTTPException 500 e), [c1, c2])
            | Inr search_results \<Rightarrow>
               (let srcs = map source_of search_results;
                    prompt = combined_prompt search_results request;
                    config = generation_config_of cfg;
                    c3 = GenerateContent prompt config
                in case generate_content env prompt config of
                     Inl e \<Rightarrow> (Inl (HTTPException 500 e), [c1, c2, c3])
                   | Inr a \<Rightarrow>
                      (case confidence_of (map src_score srcs) of
                         Inl e \<Rightarrow> (Inl (HTTPException 500 e), [c1, c2, c3])
                       | Inr c \<Rightarrow>
                           (Inr \<lparr>answer64 = a, sources64 = srcs, confidence64 = c\<rparr>,
                            [c1, c2, c3])))))"

definition rag_query64 ::
  "rag_providers \<Rightarrow> RAGService \<Rightarrow> EmbeddingService \<Rightarrow> string \<Rightarrow> int \<Rightarrow> string option
     \<Rightarrow> string + response64" where
  "rag_query64 env self embedding_service q limit additional_context =
     (case create_embedding env embedding_service q of
        Inl e \<Rightarrow> Inl e
      | Inr question_embedding \<Rightarrow>
         (case search_similar env self question_embedding limit of
            Inl e \<Rightarrow> Inl e
          | Inr similar_chunks \<Rightarrow>
             (let context = rag_context similar_chunks additional_context;
                  messages = [(''system'', rag_system_prompt),
                              (''user'', user_prompt context q)]
              in case chat_completions_create env (chat_model self) messages
                        (max_tokens self) (svc_temperature self) of
                   Inl e \<Rightarrow> Inl e
                 | Inr a \<Rightarrow>
                    (case confidence_of (map src_score similar_chunks) of
                       Inl e \<Rightarrow> Inl e
                     | Inr c \<Rightarrow>
                         Inr \<lparr>answer64 = a, sources64 = similar_chunks, confidence64 = c\<rparr>))))"

section \<open>Notions used to state the properties\<close>


text \<open>The last \<open>k\<close> units of a window (all of it when it is shorter).\<close>

definition last_n :: "nat \<Rightarrow> 'a list \<Rightarrow> 'a list" where
  "last_n k xs = drop (length xs - k) xs"

text \<open>The number of windows the loop emits for \<open>len\<close> tokens: \<open>len\<close> over the stride, rounded up.\<close>

definition window_count :: "EmbeddingService \<Rightarrow> nat \<Rightarrow> nat" where
  "window_count self len =
     (len + nat (chunk_size self - chunk_overlap self) - 1)
       div nat (chunk_size self - chunk_overlap self)"

definition is_word :: "string \<Rightarrow> bool" where
  "is_word w = (w \<noteq> [] \<and> list_all (\<lambda>c. \<not> is_space c) w)"







section \<open>Sample inputs\<close>

text \<open>
  The settings are the defaults of the code; the request is the one of \<open>test_query.py\<close>.
  The collaborators answer with fixed values.
\<close>

definition default_settings :: settings where
  "default_settings =
     \<lparr>COLLECTION_NAME = ''robotics_book_embeddings'', TEMPERATURE = 7 / 10, MAX_TOKENS = 1000\<rparr>"

definition ros_request :: QueryRequest where
  "ros_request = \<lparr>question = ''What is ROS 2?'', max_results = Some 5, selected_text = None\<rparr>"


definition index_with :: "scored_point list \<Rightarrow> providers" where
  "index_with hits =
     \<lparr>embeddings_create = (\<lambda>m q. Inr [1, 0]),
      query_points = (\<lambda>c v k. Inr hits),
      generate_content = (\<lambda>p c. Inr ''ROS 2 is a robotics middleware.'')\<rparr>"


text \<open>A search against a collection that does not exist: the client raises.\<close>

definition index_missing :: providers where
  "index_missing =
     \<lparr>embeddings_create = (\<lambda>m q. Inr [1, 0]),
      query_points = (\<lambda>c v k. Inl ''Not found: Collection `robotics_book_embeddings` doesn't exist!''),
      generate_content = (\<lambda>p c. Inr ''ROS 2 is a robotics middleware.'')\<rparr>"



definition default_embedding :: EmbeddingService where
  "default_embedding =
     \<lparr>model = ''text-embedding-3-small'', chunk_size = 1000, chunk_overlap = 200\<rparr>"

definition small_window :: EmbeddingService where
  "small_window = \<lparr>model = ''text-embedding-3-small'', chunk_size = 3, chunk_overlap = 2\<rparr>"

definition degenerate_window :: EmbeddingService where
  "degenerate_window =
     \<lparr>model = ''text-embedding-3-small'', chunk_size = 200, chunk_overlap = 200\<rparr>"

text \<open>A tokenizer with one token for each character, standing in for tiktoken.\<close>

definition char_encoding :: encoding where
  "char_encoding = \<lparr>encode = map of_char, decode = map char_of\<rparr>"

text \<open>
  The tokenizer library around it: the lookup succeeds, and \<open>encode\<close> refuses the text
  that is the special token \<open><|endoftext|>\<close>.
\<close>

definition char_tiktoken :: tiktoken where
  "char_tiktoken =
     \<lparr>encoding_for_model = (\<lambda>m. Inr char_encoding),
      disallowed_special = (\<lambda>enc t. if t = ''<|endoftext|>''
         then Some ''Encountered text corresponding to disallowed special token''
         else None)\<rparr>"

definition a_mdx :: path where "a_mdx = [''docs'', ''a.mdx'']"
definition b_mdx :: path where "b_mdx = [''docs'', ''b.mdx'']"
definition c_mdx :: path where "c_mdx = [''docs'', ''c.mdx'']"

text \<open>
  Three documents: the first is long enough and uploads, reading the second raises, the
  third is shorter than 50 characters.
\<close>

definition upload_fixture :: upload_env where
  "upload_fixture =
     \<lparr>read_text = (\<lambda>p. if p = b_mdx then Inl ''[Errno 13] Permission denied''
                       else if p = c_mdx then Inr ''# Title''
                       else Inr ''ROS 2 is a robotics middleware for building robot applications.''),
      clean_content = py_strip,
      up_embeddings_create = (\<lambda>m t. Inr [1, 0]),
      uuid4 = (\<lambda>p i. path_name p @ ''-'' @ str_nat i),
      upsert = (\<lambda>c points store. Inr (store @ points)),
      up_collection = ''robotics_book_embeddings''\<rparr>"





section \<open>The conversational short-circuit\<close>

lemma short_circuit:
  "py_strip (py_lower (question request)) \<in> set vague_inputs \<Longrightarrow>
   query_chatbot env cfg request
     = (Inr \<lparr>answer = greeting, sources = [], confidence = 1\<rparr>, [])"
  by (simp add: query_chatbot_def)

text \<open>
  Claim C1. A question that, lower-cased and stripped, is one of "hi", "hello", "hey",
  "ok", "thanks" is answered with the canned greeting, no sources and confidence 1, and
  the endpoint calls none of the embedding, search and generation providers (its call
  record is empty).
\<close>

theorem greeting_short_circuit:
  assumes "py_strip (py_lower (question request))
             \<in> {''hi'', ''hello'', ''hey'', ''ok'', ''thanks''}"
  shows "query_chatbot env cfg request
           = (Inr \<lparr>answer = greeting, sources = [], confidence = 1\<rparr>, [])"
  using assms by (intro short_circuit) (auto simp: vague_inputs_def)

theorem greeting_short_circuit_witness:
  "query_chatbot (index_with []) default_settings
      \<lparr>question = '' Hello  '', max_results = Some 5, selected_text = None\<rparr>
     = (Inr \<lparr>answer = greeting, sources = [], confidence = 1\<rparr>, [])"
proof -
  have "py_strip (py_lower '' Hello  '') = ''hello''" by code_simp
  then show ?thesis by (intro greeting_short_circuit) simp
qed

text \<open>
  Claim C9. The list of fillers is longer than the five above: "ji", "yes", "no", "okay"
  and "thank you" take the same short-circuit, with the same answer, no sources,
  confidence 1 and no provider call.
\<close>

theorem filler_short_circuit:
  assumes "py_strip (py_lower (question request))
             \<in> {''ji'', ''yes'', ''no'', ''okay'', ''thank you''}"
  shows "query_chatbot env cfg request
           = (Inr \<lparr>answer = greeting, sources = [], confidence = 1\<rparr>, [])"
  using assms by (intro short_circuit) (auto simp: vague_inputs_def)

theorem filler_short_circuit_witness:
  "query_chatbot index_missing default_settings
      \<lparr>question = ''Thank You '', max_results = None, selected_text = None\<rparr>
     = (Inr \<lparr>answer = greeting, sources = [], confidence = 1\<rparr>, [])"
proof -
  have "py_strip (py_lower ''Thank You '') = ''thank you''" by code_simp
  then show ?thesis by (intro filler_short_circuit) simp
qed

section \<open>The token windows of the embedding service\<close>

lemma py_slice_window:
  assumes "a < length xs" "0 \<le> sz"
  shows "py_slice xs (int a) (int a + sz) = take (nat sz) (drop a xs)"
proof -
  have b: "slice_bound (int a + sz) (length xs) = min (a + nat sz) (length xs)"
    using assms by (simp add: slice_bound_def nat_add_distrib)
  have a: "slice_bound (int a) (length xs) = a"
    using assms by (simp add: slice_bound_def)
  have "take (min (a + nat sz) (length xs) - a) (drop a xs) = take (nat sz) (drop a xs)"
    using assms by (simp add: min_def)
  with a b show ?thesis by (simp add: py_slice_def Let_def)
qed

lemma count_less_iff:
  fixes j len step :: nat
  assumes "0 < step"
  shows "j < (len + step - 1) div step \<longleftrightarrow> j * step < len"
proof -
  have "j < (len + step - 1) div step \<longleftrightarrow> Suc j \<le> (len + step - 1) div step" by auto
  also have "\<dots> \<longleftrightarrow> Suc j * step \<le> len + step - 1"
    using assms by (simp add: less_eq_div_iff_mult_less_eq)
  also have "\<dots> \<longleftrightarrow> j * step < len" using assms by auto
  finally show ?thesis .
qed

text \<open>
  With \<open>0 \<le> overlap < size\<close> the loop started at the \<open>j\<close>-th stride returns, and what
  it appends are the windows from \<open>j\<close> on.
\<close>

lemma chunk_loop_closed:
  fixes csize coverlap :: int
  assumes "0 \<le> coverlap" "coverlap < csize"
  shows "j \<le> (length tokens + nat (csize - coverlap) - 1) div nat (csize - coverlap) \<Longrightarrow>
    chunk_loop dec csize coverlap tokens (int (j * nat (csize - coverlap))) acc =
      Some (acc @ map (\<lambda>k. dec (take (nat csize) (drop (k * nat (csize - coverlap)) tokens)))
                    [j ..< (length tokens + nat (csize - coverlap) - 1) div nat (csize - coverlap)])"
proof (induction "(length tokens + nat (csize - coverlap) - 1) div nat (csize - coverlap) - j"
       arbitrary: j acc)
  case 0
  define step where "step = nat (csize - coverlap)"
  have sp: "0 < step" using assms by (simp add: step_def)
  from 0 have "\<not> j < (length tokens + step - 1) div step" by (simp add: step_def)
  then have "\<not> j * step < length tokens" using count_less_iff [OF sp] by simp
  then have "\<not> int (j * step) < int (length tokens)" by (metis of_nat_less_iff)
  moreover have "[j ..< (length tokens + step - 1) div step] = []" using 0 by (simp add: step_def)
  ultimately show ?case
    unfolding step_def [symmetric] by (subst chunk_loop.simps) simp
next
  case (Suc d)
  define step where "step = nat (csize - coverlap)"
  define n where "n = (length tokens + step - 1) div step"
  have sp: "0 < step" using assms by (simp add: step_def)
  from Suc.hyps(2) have jn: "j < n" by (simp add: n_def step_def)
  then have lt: "j * step < length tokens" using count_less_iff [OF sp] by (simp add: n_def)
  have nxt: "int (j * step) + csize - coverlap = int (Suc j * step)"
    using assms by (simp add: step_def algebra_simps)
  have sl: "py_slice tokens (int (j * step)) (int (j * step) + csize)
              = take (nat csize) (drop (j * step) tokens)"
    using lt assms by (intro py_slice_window) auto
  have d: "d = n - Suc j" using Suc.hyps(2) by (simp add: n_def step_def)
  have IH: "chunk_loop dec csize coverlap tokens (int (Suc j * step)) acc' =
      Some (acc' @ map (\<lambda>k. dec (take (nat csize) (drop (k * step) tokens))) [Suc j ..< n])"
    for acc'
    using Suc.hyps(1) [of "Suc j" acc'] d jn unfolding step_def n_def by simp
  have up: "[j ..< n] = j # [Suc j ..< n]" using jn by (simp add: upt_conv_Cons)
  have "chunk_loop dec csize coverlap tokens (int (j * step)) acc =
        chunk_loop dec csize coverlap tokens (int (Suc j * step))
          (acc @ [dec (take (nat csize) (drop (j * step) tokens))])"
  proof -
    have cond: "int (j * step) < int (length tokens)" using lt by (metis of_nat_less_iff)
    show ?thesis
      by (subst chunk_loop.simps) (simp only: cond if_True Let_def sl nxt)
  qed
  also have "\<dots> = Some (acc @ map (\<lambda>k. dec (take (nat csize) (drop (k * step) tokens))) [j ..< n])"
    unfolding IH up by simp
  finally show ?case unfolding step_def n_def .
qed

lemma chunk_loop_valid:
  assumes "0 \<le> coverlap" "coverlap < csize"
  shows "chunk_loop dec csize coverlap tokens 0 [] =
      Some (map (\<lambda>k. dec (take (nat csize) (drop (k * nat (csize - coverlap)) tokens)))
                [0 ..< (length tokens + nat (csize - coverlap) - 1) div nat (csize - coverlap)])"
  using chunk_loop_closed [OF assms, of 0 tokens dec "[]"] by simp

lemma chunk_windows_valid:
  assumes "0 \<le> chunk_overlap self" "chunk_overlap self < chunk_size self"
  shows "chunk_windows self tokens =
      Some (map (\<lambda>k. take (nat (chunk_size self))
                        (drop (k * nat (chunk_size self - chunk_overlap self)) tokens))
                [0 ..< window_count self (length tokens)])"
  unfolding chunk_windows_def window_count_def by (rule chunk_loop_valid [OF assms])

lemma chunk_text_valid:
  assumes "0 \<le> chunk_overlap self" "chunk_overlap self < chunk_size self"
  shows "chunk_text self enc text =
      Some (map (decode enc)
             (map (\<lambda>k. take (nat (chunk_size self))
                        (drop (k * nat (chunk_size self - chunk_overlap self)) (encode enc text)))
                [0 ..< window_count self (length (encode enc text))]))"
  unfolding chunk_text_def window_count_def
  by (simp add: chunk_loop_valid [OF assms] comp_def)

lemma chunk_loop_empty: "chunk_loop dec csize coverlap [] 0 [] = Some []"
  by (subst chunk_loop.simps) simp

text \<open>
  With \<open>size \<le> overlap\<close> the start never moves forward: from a start inside the token
  sequence the loop does not return.
\<close>

lemma chunk_loop_diverges_aux:
  fixes dec :: "'t list \<Rightarrow> 'c" and csize coverlap start :: int
  assumes "chunk_loop dec csize coverlap tokens start chunks = Some r"
  shows "\<not> (csize \<le> coverlap \<and> start < int (length tokens))"
  apply (rule chunk_loop.raw_induct
    [where P = "\<lambda>(dec :: 't list \<Rightarrow> 'c) (csize::int) (coverlap::int) (tokens :: 't list)
                  (start::int) (chunks :: 'c list) (r :: 'c list).
                  \<not> (csize \<le> coverlap \<and> start < int (length tokens))", OF _ assms])
  subgoal premises prems for f dec csize coverlap tokens start chunks r
  proof
    assume a: "csize \<le> coverlap \<and> start < int (length tokens)"
    with prems(2) have "f dec csize coverlap tokens (start + csize - coverlap)
        (chunks @ [dec (py_slice tokens start (start + csize))]) = Some r"
      by (simp add: Let_def)
    from prems(1) [OF this] a show False by simp
  qed
  done

lemma chunk_loop_diverges:
  "csize \<le> coverlap \<Longrightarrow> start < int (length tokens) \<Longrightarrow>
     chunk_loop dec csize coverlap tokens start chunks = None"
  using chunk_loop_diverges_aux [of dec csize coverlap tokens start chunks]
  by (cases "chunk_loop dec csize coverlap tokens start chunks") auto

text \<open>With \<open>overlap < size\<close>, whatever their signs, the start moves forward and the loop returns.\<close>

lemma chunk_loop_returns:
  fixes csize coverlap start :: int
  assumes "coverlap < csize"
  shows "\<exists>r. chunk_loop dec csize coverlap tokens start acc = Some r"
proof (induction "nat (int (length tokens) - start)" arbitrary: start acc rule: less_induct)
  case less
  show ?case
  proof (cases "start < int (length tokens)")
    case False
    then show ?thesis by (subst chunk_loop.simps) simp
  next
    case True
    with assms have "nat (int (length tokens) - (start + csize - coverlap))
                       < nat (int (length tokens) - start)" by simp
    from less [OF this] obtain r where
      "chunk_loop dec csize coverlap tokens (start + csize - coverlap)
         (acc @ [dec (py_slice tokens start (start + csize))]) = Some r" by blast
    with True show ?thesis by (subst chunk_loop.simps) (simp add: Let_def)
  qed
qed

lemma chunk_text_returns:
  assumes "chunk_overlap self < chunk_size self \<or> encode enc text = []"
  shows "\<exists>chunks. chunk_text self enc text = Some chunks"
proof (cases "encode enc text = []")
  case True
  then show ?thesis by (simp add: chunk_text_def chunk_loop_empty)
next
  case False
  with assms have "chunk_overlap self < chunk_size self" by simp
  from chunk_loop_returns [OF this] show ?thesis by (simp add: chunk_text_def)
qed

lemma chunk_text_hangs:
  assumes "chunk_size self \<le> chunk_overlap self" "encode enc text \<noteq> []"
  shows "chunk_text self enc text = None"
  unfolding chunk_text_def using assms by (intro chunk_loop_diverges) simp_all

section \<open>Window parameters are not validated\<close>

text \<open>
  Claim C4, as stated, fails: a request with \<open>overlap = window_size = 200\<close> is not
  rejected. On a text without tokens the call returns normally, with no chunks; on the
  text "hello" it raises nothing and never returns (\<open>None\<close>).
\<close>

theorem degenerate_window_not_rejected:
  "chunk_text_call char_tiktoken degenerate_window '''' = (Some (Inr []), [])
   \<and> chunk_text_call char_tiktoken degenerate_window ''hello'' = (None, [])"
proof
  show "chunk_text_call char_tiktoken degenerate_window '''' = (Some (Inr []), [])"
    by (simp add: chunk_text_call_def char_tiktoken_def chunk_text_def char_encoding_def
          chunk_loop_empty)
  have "chunk_text degenerate_window char_encoding ''hello'' = None"
    by (rule chunk_text_hangs) (simp_all add: degenerate_window_def char_encoding_def)
  then show "chunk_text_call char_tiktoken degenerate_window ''hello'' = (None, [])"
    by (simp add: chunk_text_call_def char_tiktoken_def)
qed

text \<open>
  Claim C4, amended. The chunk operation performs no validation of its window
  parameters and calls no provider: the only exceptions it raises are those of the
  tokenizer (the encoding lookup, a special token in the text), whatever the
  parameters are. On a text the tokenizer accepts it returns a chunk sequence whenever
  \<open>overlap < window_size\<close>, so under \<open>0 \<le> overlap < window_size\<close> in particular, and
  whenever the text has no tokens, then with no chunks; with \<open>overlap \<ge> window_size\<close>
  and a text that has tokens it neither rejects nor returns.
\<close>

theorem chunk_text_never_validates:
  "snd (chunk_text_call tk self text) = []
   \<and> (\<forall>e. fst (chunk_text_call tk self text) = Some (Inl e) \<longrightarrow>
          encoding_for_model tk ''gpt-4'' = Inl e
          \<or> (\<exists>enc. encoding_for_model tk ''gpt-4'' = Inr enc
                   \<and> disallowed_special tk enc text = Some e))
   \<and> (\<forall>enc. encoding_for_model tk ''gpt-4'' = Inr enc
             \<and> disallowed_special tk enc text = None \<longrightarrow>
          (chunk_overlap self < chunk_size self \<or> encode enc text = [] \<longrightarrow>
             (\<exists>chunks. fst (chunk_text_call tk self text) = Some (Inr chunks)))
          \<and> (encode enc text = [] \<longrightarrow>
               fst (chunk_text_call tk self text) = Some (Inr []))
          \<and> (chunk_size self \<le> chunk_overlap self \<and> encode enc text \<noteq> [] \<longrightarrow>
               fst (chunk_text_call tk self text) = None))"
proof (intro conjI allI impI)
  show "snd (chunk_text_call tk self text) = []"
    by (simp add: chunk_text_call_def split: sum.splits option.splits)
next
  fix e assume "fst (chunk_text_call tk self text) = Some (Inl e)"
  then show "encoding_for_model tk ''gpt-4'' = Inl e
          \<or> (\<exists>enc. encoding_for_model tk ''gpt-4'' = Inr enc
                   \<and> disallowed_special tk enc text = Some e)"
    by (auto simp: chunk_text_call_def split: sum.splits option.splits)
next
  fix enc
  assume t: "encoding_for_model tk ''gpt-4'' = Inr enc \<and> disallowed_special tk enc text = None"
  then have c: "fst (chunk_text_call tk self text) = map_option Inr (chunk_text self enc text)"
    by (simp add: chunk_text_call_def)
  {
    assume "chunk_overlap self < chunk_size self \<or> encode enc text = []"
    from chunk_text_returns [OF this] c
    show "\<exists>chunks. fst (chunk_text_call tk self text) = Some (Inr chunks)" by auto
  }
  {
    assume "encode enc text = []"
    with c show "fst (chunk_text_call tk self text) = Some (Inr [])"
      by (simp add: chunk_text_def chunk_loop_empty)
  }
  {
    assume "chunk_size self \<le> chunk_overlap self \<and> encode enc text \<noteq> []"
    with c chunk_text_hangs [of self enc "text"]
    show "fst (chunk_text_call tk self text) = None" by simp
  }
qed

theorem chunk_text_never_validates_witness:
  "snd (chunk_text_call char_tiktoken degenerate_window ''hello'') = []
   \<and> fst (chunk_text_call char_tiktoken degenerate_window ''<|endoftext|>'')
       = Some (Inl ''Encountered text corresponding to disallowed special token'')
   \<and> disallowed_special char_tiktoken char_encoding ''<|endoftext|>''
       = Some ''Encountered text corresponding to disallowed special token''
   \<and> encoding_for_model char_tiktoken ''gpt-4'' = Inr char_encoding
   \<and> disallowed_special char_tiktoken char_encoding ''hello'' = None
   \<and> disallowed_special char_tiktoken char_encoding '''' = None
   \<and> chunk_overlap small_window < chunk_size small_window
   \<and> (\<exists>chunks. fst (chunk_text_call char_tiktoken small_window ''hello'') = Some (Inr chunks))
   \<and> encode char_encoding '''' = []
   \<and> fst (chunk_text_call char_tiktoken degenerate_window '''') = Some (Inr [])
   \<and> chunk_size degenerate_window \<le> chunk_overlap degenerate_window
   \<and> encode char_encoding ''hello'' \<noteq> []
   \<and> fst (chunk_text_call char_tiktoken degenerate_window ''hello'') = None"
proof -
  have r: "fst (chunk_text_call char_tiktoken degenerate_window ''<|endoftext|>'')
       = Some (Inl ''Encountered text corresponding to disallowed special token'')"
    by (simp add: chunk_text_call_def char_tiktoken_def)
  have l: "encoding_for_model char_tiktoken ''gpt-4'' = Inr char_encoding"
    by (simp add: char_tiktoken_def)
  have d: "disallowed_special char_tiktoken char_encoding ''hello'' = None"
    "disallowed_special char_tiktoken char_encoding '''' = None"
    by (simp_all add: char_tiktoken_def)
  have v: "chunk_overlap small_window < chunk_size small_window"
    "chunk_size degenerate_window \<le> chunk_overlap degenerate_window"
    by (simp_all add: small_window_def degenerate_window_def)
  have e: "encode char_encoding '''' = []" "encode char_encoding ''hello'' \<noteq> []"
    by (simp_all add: char_encoding_def)
  from chunk_text_never_validates [of char_tiktoken degenerate_window "''<|endoftext|>''"] r l
  have s: "disallowed_special char_tiktoken char_encoding ''<|endoftext|>''
       = Some ''Encountered text corresponding to disallowed special token''"
    by auto
  from chunk_text_never_validates [of char_tiktoken small_window "''hello''"] l d v
  have a: "\<exists>chunks. fst (chunk_text_call char_tiktoken small_window ''hello'') = Some (Inr chunks)"
    by blast
  from chunk_text_never_validates [of char_tiktoken degenerate_window "''''"] l d e
  have b: "fst (chunk_text_call char_tiktoken degenerate_window '''') = Some (Inr [])"
    by blast
  from chunk_text_never_validates [of char_tiktoken degenerate_window "''hello''"] l d v e
  have c: "snd (chunk_text_call char_tiktoken degenerate_window ''hello'') = []"
    "fst (chunk_text_call char_tiktoken degenerate_window ''hello'') = None"
    by blast+
  from r s l d v a e b c show ?thesis by (simp only: simp_thms)
qed

section \<open>Overlap of consecutive windows\<close>

text \<open>
  Claim C5, as stated, fails. With \<open>window_size = 3\<close>, \<open>overlap = 2\<close> and four tokens the
  windows are \<open>[1,2,3]\<close>, \<open>[2,3,4]\<close>, \<open>[3,4]\<close>, \<open>[4]\<close>. The third window is not the final
  one; its last two tokens are \<open>[3,4]\<close>, the first two of the fourth are \<open>[4]\<close>.
\<close>

theorem truncated_window_overlap_differs:
  "chunk_windows small_window [1, 2, 3, 4] = Some [ [1, 2, 3], [2, 3, 4], [3, 4], [4] ]
   \<and> last_n 2 ([ [1, 2, 3], [2, 3, 4], [3, 4], [4 :: nat] ] ! 2)
       \<noteq> take 2 ([ [1, 2, 3], [2, 3, 4], [3, 4], [4] ] ! 3)"
  by code_simp

text \<open>
  Claim C5, amended. Under \<open>0 \<le> overlap < window_size\<close>, for any two consecutive
  windows \<open>i\<close> and \<open>i+1\<close>: what window \<open>i\<close> holds from position \<open>window_size - overlap\<close> on
  equals the first \<open>overlap\<close> tokens of window \<open>i+1\<close>; and when window \<open>i\<close> is a full
  window of \<open>window_size\<close> tokens, these are its last \<open>overlap\<close> tokens. The chunks are the
  decoded windows.
\<close>

theorem consecutive_windows_overlap:
  assumes "0 \<le> chunk_overlap self" "chunk_overlap self < chunk_size self"
  shows "\<exists>ws. chunk_windows self (encode enc text) = Some ws
           \<and> chunk_text self enc text = Some (map (decode enc) ws)
           \<and> (\<forall>i. Suc i < length ws \<longrightarrow>
                 drop (nat (chunk_size self - chunk_overlap self)) (ws ! i)
                   = take (nat (chunk_overlap self)) (ws ! Suc i)
                 \<and> (length (ws ! i) = nat (chunk_size self) \<longrightarrow>
                      last_n (nat (chunk_overlap self)) (ws ! i)
                        = take (nat (chunk_overlap self)) (ws ! Suc i)))"
proof -
  define sz where "sz = nat (chunk_size self)"
  define step where "step = nat (chunk_size self - chunk_overlap self)"
  define ov where "ov = nat (chunk_overlap self)"
  define tokens where "tokens = encode enc text"
  define ws where "ws = map (\<lambda>k. take sz (drop (k * step) tokens))
                           [0 ..< window_count self (length tokens)]"
  have rel: "sz - step = ov" "ov \<le> sz" "sz - ov = step"
    using assms by (auto simp: sz_def step_def ov_def)
  have 1: "chunk_windows self tokens = Some ws"
    unfolding ws_def sz_def step_def by (rule chunk_windows_valid [OF assms])
  have 2: "chunk_text self enc text = Some (map (decode enc) ws)"
    unfolding ws_def sz_def step_def tokens_def by (rule chunk_text_valid [OF assms])
  have 3: "drop step (ws ! i) = take ov (ws ! Suc i)" if "Suc i < length ws" for i
  proof -
    from that have i: "ws ! i = take sz (drop (i * step) tokens)"
      and j: "ws ! Suc i = take sz (drop (Suc i * step) tokens)"
      by (simp_all add: ws_def)
    have "drop step (ws ! i) = take (sz - step) (drop (step + i * step) tokens)"
      by (simp add: i drop_take)
    also have "\<dots> = take ov (ws ! Suc i)"
      using rel by (simp add: j min_def)
    finally show ?thesis .
  qed
  have 4: "last_n ov (ws ! i) = take ov (ws ! Suc i)"
    if "Suc i < length ws" "length (ws ! i) = sz" for i
    using 3 [OF that(1)] that(2) rel by (simp add: last_n_def)
  show ?thesis
    using 1 2 3 4 unfolding sz_def step_def ov_def tokens_def by blast
qed

theorem consecutive_windows_overlap_witness:
  "0 \<le> chunk_overlap small_window
   \<and> chunk_overlap small_window < chunk_size small_window
   \<and> chunk_windows small_window (encode char_encoding ''abcd'')
      = Some [ [97, 98, 99], [98, 99, 100], [99, 100], [100] ]
   \<and> last_n 2 [97, 98, 99 :: nat] = take 2 [98, 99, 100]
   \<and> drop 1 [99, 100 :: nat] = take 2 [100]"
proof -
  have v: "0 \<le> chunk_overlap small_window" "chunk_overlap small_window < chunk_size small_window"
    by (simp_all add: small_window_def)
  have w: "chunk_windows small_window (encode char_encoding ''abcd'')
      = Some [ [97, 98, 99], [98, 99, 100], [99, 100], [100] ]"
    by code_simp
  from consecutive_windows_overlap [OF v, of char_encoding "''abcd''"] w
  have "\<forall>i. Suc i < 4 \<longrightarrow>
          drop (nat (chunk_size small_window - chunk_overlap small_window))
               ([ [97, 98, 99], [98, 99, 100], [99, 100], [100 :: nat] ] ! i)
            = take (nat (chunk_overlap small_window))
               ([ [97, 98, 99], [98, 99, 100], [99, 100], [100] ] ! Suc i)
          \<and> (length ([ [97, 98, 99], [98, 99, 100], [99, 100], [100 :: nat] ] ! i)
                = nat (chunk_size small_window) \<longrightarrow>
               last_n (nat (chunk_overlap small_window))
                 ([ [97, 98, 99], [98, 99, 100], [99, 100], [100 :: nat] ] ! i)
               = take (nat (chunk_overlap small_window))
                 ([ [97, 98, 99], [98, 99, 100], [99, 100], [100] ] ! Suc i))"
    by auto
  from this [rule_format, of 0] this [rule_format, of 2] w v show ?thesis
    by (simp add: small_window_def)
qed

section \<open>How many chunks\<close>

lemma window_count_one:
  assumes "0 \<le> chunk_overlap self" "chunk_overlap self < chunk_size self"
  shows "window_count self len = 1 \<longleftrightarrow>
           0 < len \<and> len \<le> nat (chunk_size self - chunk_overlap self)"
proof -
  define step where "step = nat (chunk_size self - chunk_overlap self)"
  have sp: "0 < step" using assms by (simp add: step_def)
  have a: "0 < window_count self len \<longleftrightarrow> 0 < len"
    using count_less_iff [OF sp, of 0 len] by (simp add: window_count_def step_def)
  have b: "1 < window_count self len \<longleftrightarrow> step < len"
    using count_less_iff [OF sp, of 1 len] by (simp add: window_count_def step_def)
  have "window_count self len = 1 \<longleftrightarrow> 0 < window_count self len \<and> \<not> 1 < window_count self len"
    by auto
  then show ?thesis using a b unfolding step_def by auto
qed

text \<open>
  Claim C6, as stated, fails. With \<open>window_size = 3\<close> and \<open>overlap = 2\<close> the text "hi" has
  two tokens, fewer than the window size, and is split into two chunks: "hi" and "i".
\<close>

theorem short_input_two_chunks:
  "length (encode char_encoding ''hi'') = 2
   \<and> chunk_text small_window char_encoding ''hi'' = Some [''hi'', ''i'']"
  by code_simp

text \<open>
  Claim C6, amended. Under \<open>0 \<le> overlap < window_size\<close> the chunk operation emits
  exactly one chunk if and only if the token sequence is non-empty and no longer than
  \<open>window_size - overlap\<close>.
\<close>

theorem single_chunk_iff:
  assumes "0 \<le> chunk_overlap self" "chunk_overlap self < chunk_size self"
  shows "\<exists>ws. chunk_windows self (encode enc text) = Some ws
           \<and> chunk_text self enc text = Some (map (decode enc) ws)
           \<and> (length ws = 1 \<longleftrightarrow>
                 encode enc text \<noteq> []
                 \<and> int (length (encode enc text)) \<le> chunk_size self - chunk_overlap self)"
proof -
  define ws where "ws = map (\<lambda>k. take (nat (chunk_size self))
                        (drop (k * nat (chunk_size self - chunk_overlap self)) (encode enc text)))
                [0 ..< window_count self (length (encode enc text))]"
  have "chunk_windows self (encode enc text) = Some ws"
    unfolding ws_def by (rule chunk_windows_valid [OF assms])
  moreover have "chunk_text self enc text = Some (map (decode enc) ws)"
    unfolding ws_def by (rule chunk_text_valid [OF assms])
  moreover have "length ws = 1 \<longleftrightarrow> encode enc text \<noteq> []
                 \<and> int (length (encode enc text)) \<le> chunk_size self - chunk_overlap self"
    using window_count_one [OF assms, of "length (encode enc text)"] assms
    by (auto simp: ws_def)
  ultimately show ?thesis by blast
qed

theorem single_chunk_iff_witness:
  "0 \<le> chunk_overlap default_embedding
   \<and> chunk_overlap default_embedding < chunk_size default_embedding
   \<and> (\<exists>ws. chunk_text default_embedding char_encoding ''What is ROS 2?''
              = Some (map (decode char_encoding) ws)
            \<and> length ws = 1)"
proof -
  have v: "0 \<le> chunk_overlap default_embedding"
    "chunk_overlap default_embedding < chunk_size default_embedding"
    by (simp_all add: default_embedding_def)
  have l: "encode char_encoding ''What is ROS 2?'' \<noteq> []
     \<and> int (length (encode char_encoding ''What is ROS 2?''))
         \<le> chunk_size default_embedding - chunk_overlap default_embedding"
    by (simp add: char_encoding_def default_embedding_def)
  from single_chunk_iff [OF v, of char_encoding "''What is ROS 2?''"] l v
  show ?thesis by auto
qed

section \<open>Confidence\<close>

lemma round_half_even_zero: "round_half_even 0 = 0"
  by (simp add: round_half_even_def)

lemma py_round_zero: "py_round 0 n = 0"
  by (simp add: py_round_def round_half_even_zero)





lemma ros_not_vague: "py_strip (py_lower (question ros_request)) \<notin> set vague_inputs"
  by code_simp












section \<open>Rounding to the nearest double\<close>



















section \<open>The confidence in binary64\<close>















text \<open>
  The binary64 endpoint is the endpoint: the same provider calls, and the same answer
  and sources whenever it returns.
\<close>

lemma query_chatbot64_calls:
  "snd (query_chatbot64 env cfg request) = snd (query_chatbot env cfg request)"
  by (simp add: query_chatbot64_def query_chatbot_def Let_def split: sum.splits)

lemma query_chatbot64_answer:
  assumes "fst (query_chatbot64 env cfg request) = Inr r"
  shows "\<exists>r0. fst (query_chatbot env cfg request) = Inr r0
           \<and> answer r0 = answer64 r \<and> sources r0 = sources64 r"
  using assms
  by (auto simp: query_chatbot64_def query_chatbot_def Let_def split: sum.splits if_splits)

lemma rag_query64_answer_sources:
  assumes "rag_query64 env self emb q limit ctx = Inr r"
  shows "\<exists>r0. rag_query env self emb q limit ctx = Inr r0
           \<and> answer r0 = answer64 r \<and> sources r0 = sources64 r"
  using assms
  by (auto simp: rag_query64_def rag_query_def Let_def split: sum.splits)



section \<open>A missing or empty index\<close>

text \<open>
  Claim C3, as stated, fails for a missing collection. The search call raises, the
  handler of the endpoint turns the exception into \<open>HTTPException(500)\<close>, and the query
  fails after two provider calls: no sources and no confidence are returned.
\<close>

theorem missing_collection_fails:
  "query_chatbot index_missing default_settings ros_request
     = (Inl (HTTPException 500
               ''Not found: Collection `robotics_book_embeddings` doesn't exist!''),
        [EmbeddingsCreate ''text-embedding-3-small'' ''What is ROS 2?'',
         QueryPoints ''robotics_book_embeddings'' [1, 0] (Some 5)])"
  by code_simp

text \<open>
  Claim C3, amended. For a query that is not a conversational filler and whose
  embedding call succeeds: when the search returns no passages (the collection is
  empty) and the generation call succeeds, the query completes with that answer, no
  sources and confidence 0; when the search raises (the collection is missing), the
  query fails with \<open>HTTPException(500)\<close> carrying the error text, and the generation
  provider is not called.
\<close>

theorem empty_index_degrades:
  assumes "py_strip (py_lower (question request)) \<notin> set vague_inputs"
    and "embeddings_create env ''text-embedding-3-small'' (question request) = Inr v"
  shows "(query_points env (COLLECTION_NAME cfg) v (max_results request) = Inr []
          \<and> generate_content env (combined_prompt [] request) (generation_config_of cfg) = Inr a
          \<longrightarrow> fst (query_chatbot env cfg request)
                = Inr \<lparr>answer = a, sources = [], confidence = 0\<rparr>)
       \<and> (query_points env (COLLECTION_NAME cfg) v (max_results request) = Inl e
          \<longrightarrow> query_chatbot env cfg request
                = (Inl (HTTPException 500 e),
                   [EmbeddingsCreate ''text-embedding-3-small'' (question request),
                    QueryPoints (COLLECTION_NAME cfg) v (max_results request)]))"
  using assms by (simp add: query_chatbot_def Let_def avg_score_def py_round_zero)

theorem empty_index_degrades_witness:
  "py_strip (py_lower (question ros_request)) \<notin> set vague_inputs
   \<and> embeddings_create (index_with []) ''text-embedding-3-small'' (question ros_request)
       = Inr [1, 0]
   \<and> query_points (index_with []) (COLLECTION_NAME default_settings) [1, 0]
        (max_results ros_request) = Inr []
   \<and> fst (query_chatbot (index_with []) default_settings ros_request)
       = Inr \<lparr>answer = ''ROS 2 is a robotics middleware.'', sources = [], confidence = 0\<rparr>"
proof -
  have e: "embeddings_create (index_with []) ''text-embedding-3-small'' (question ros_request)
       = Inr [1, 0]"
    by (simp add: index_with_def)
  have q: "query_points (index_with []) (COLLECTION_NAME default_settings) [1, 0]
        (max_results ros_request) = Inr []"
    by (simp add: index_with_def)
  have g: "generate_content (index_with []) (combined_prompt [] ros_request)
        (generation_config_of default_settings) = Inr ''ROS 2 is a robotics middleware.''"
    by (simp add: index_with_def)
  from empty_index_degrades [OF ros_not_vague e, of default_settings
         "''ROS 2 is a robotics middleware.''"] q g e ros_not_vague
  show ?thesis by simp
qed

section \<open>The uploader's chunks partition the words\<close>

lemma is_space_blank: "is_space (CHR '' '')"
  by (simp add: is_space_def)

lemma split_acc_words:
  "cur = [] \<or> is_word cur \<Longrightarrow> list_all is_word (split_acc cur s)"
proof (induction s arbitrary: cur)
  case Nil
  then show ?case by auto
next
  case (Cons c s)
  show ?case
  proof (cases "is_space c")
    case True
    with Cons show ?thesis by auto
  next
    case False
    with Cons.prems have "is_word (cur @ [c])" by (auto simp: is_word_def)
    with Cons.IH [of "cur @ [c]"] False show ?thesis by simp
  qed
qed

lemma py_split_words: "list_all is_word (py_split s)"
  by (simp add: py_split_def split_acc_words)

lemma split_acc_prefix:
  "list_all (\<lambda>c. \<not> is_space c) w \<Longrightarrow> split_acc cur (w @ s) = split_acc (cur @ w) s"
  by (induction w arbitrary: cur) auto

lemma split_join_acc:
  "list_all is_word ws \<Longrightarrow> ws \<noteq> [] \<Longrightarrow> split_acc [] (py_join '' '' ws) = ws"
proof (induction "'' ''" ws rule: py_join.induct)
  case 1
  then show ?case by simp
next
  case (2 x)
  then have "split_acc [] (x @ []) = split_acc ([] @ x) []"
    by (intro split_acc_prefix) (simp add: is_word_def)
  with 2 show ?case by (simp add: is_word_def)
next
  case (3 x y ys)
  then have "split_acc [] (x @ ('' '' @ py_join '' '' (y # ys)))
               = split_acc ([] @ x) ('' '' @ py_join '' '' (y # ys))"
    by (intro split_acc_prefix) (simp add: is_word_def)
  with 3 show ?case by (simp add: is_word_def is_space_blank)
qed

lemma split_join: "list_all is_word ws \<Longrightarrow> py_split (py_join '' '' ws) = ws"
  by (cases "ws = []") (simp_all add: py_split_def split_join_acc)

lemma join_append:
  "xs \<noteq> [] \<Longrightarrow> ys \<noteq> [] \<Longrightarrow> py_join s (xs @ ys) = py_join s xs @ s @ py_join s ys"
proof (induction s xs rule: py_join.induct)
  case (1 sep)
  then show ?case by simp
next
  case (2 sep x)
  then show ?case by (cases ys) simp_all
next
  case (3 sep x y ys)
  then show ?case by simp
qed

lemma join_groups:
  "list_all (\<lambda>g. g \<noteq> []) gs \<Longrightarrow>
     py_join s (map (py_join s) gs) = py_join s (concat gs)"
proof (induction gs)
  case Nil
  then show ?case by simp
next
  case (Cons g gs)
  show ?case
  proof (cases gs)
    case Nil
    then show ?thesis by simp
  next
    case (Cons h hs)
    with Cons.prems have ne: "g \<noteq> []" "concat gs \<noteq> []" by auto
    from Cons.prems Cons.IH have "py_join s (map (py_join s) gs) = py_join s (concat gs)" by simp
    with Cons ne show ?thesis by (simp add: join_append)
  qed
qed

text \<open>
  The loop closes groups of consecutive words: whatever it has emitted so far, the
  groups it adds are non-empty and, laid end to end, are the pending words followed by
  the words still to read.
\<close>

lemma chunk_words_groups:
  "\<exists>gs. chunk_words sz ws current n (map (py_join '' '') gs0) = map (py_join '' '') (gs0 @ gs)
        \<and> concat gs = current @ ws \<and> list_all (\<lambda>g. g \<noteq> []) gs"
proof (induction ws arbitrary: current n gs0)
  case Nil
  show ?case
  proof (cases "current = []")
    case True
    then show ?thesis by (intro exI [of _ "[]"]) simp
  next
    case False
    then show ?thesis by (intro exI [of _ "[current]"]) simp
  qed
next
  case (Cons w ws)
  show ?case
  proof (cases "sz \<le> n + (int (length w) + 1)")
    case True
    from Cons.IH [of "[]" 0 "gs0 @ [current @ [w]]"]
    obtain gs where gs: "chunk_words sz ws [] 0 (map (py_join '' '') (gs0 @ [current @ [w]]))
         = map (py_join '' '') ((gs0 @ [current @ [w]]) @ gs)"
      "concat gs = ws" "list_all (\<lambda>g. g \<noteq> []) gs" by auto
    with True show ?thesis by (intro exI [of _ "(current @ [w]) # gs"]) (simp add: Let_def)
  next
    case False
    from Cons.IH [of "current @ [w]" "n + (int (length w) + 1)" gs0]
    obtain gs where "chunk_words sz ws (current @ [w]) (n + (int (length w) + 1))
           (map (py_join '' '') gs0)
         = map (py_join '' '') (gs0 @ gs)"
      "concat gs = (current @ [w]) @ ws" "list_all (\<lambda>g. g \<noteq> []) gs" by auto
    with False show ?thesis by (intro exI [of _ gs]) (simp add: Let_def)
  qed
qed

lemma concat_split_join:
  "list_all is_word (concat gs) \<Longrightarrow> concat (map py_split (map (py_join '' '') gs)) = concat gs"
  by (induction gs) (simp_all add: split_join)

text \<open>
  Claim C10. For every text and every size, the chunks of the uploader do not overlap:
  the words of the chunks, chunk after chunk, are exactly the whitespace-separated
  words of the text, in order, each occurrence once; and the chunks joined with single
  spaces split into the same words.
\<close>

theorem upload_chunks_partition_words:
  "concat (map py_split (upload_chunk_text text sz)) = py_split text
   \<and> py_split (py_join '' '' (upload_chunk_text text sz)) = py_split text"
proof -
  from chunk_words_groups [of sz "py_split text" "[]" 0 "[]"]
  obtain gs where gs: "upload_chunk_text text sz = map (py_join '' '') gs"
    "concat gs = py_split text" "list_all (\<lambda>g. g \<noteq> []) gs"
    by (auto simp: upload_chunk_text_def)
  have w: "list_all is_word (concat gs)" using gs(2) py_split_words by simp
  have "concat (map py_split (upload_chunk_text text sz)) = py_split text"
    using concat_split_join [OF w] gs by simp
  moreover have "py_split (py_join '' '' (upload_chunk_text text sz)) = py_split text"
    using join_groups [OF gs(3), of "'' ''"] split_join [OF w] gs by simp
  ultimately show ?thesis by simp
qed

theorem upload_chunks_partition_words_witness:
  "upload_chunk_text ''the cat  sat on the mat'' 8 = [''the cat'', ''sat on the'', ''mat'']
   \<and> concat (map py_split (upload_chunk_text ''the cat  sat on the mat'' 8))
       = [''the'', ''cat'', ''sat'', ''on'', ''the'', ''mat'']
   \<and> py_split (py_join '' '' (upload_chunk_text ''the cat  sat on the mat'' 8))
       = [''the'', ''cat'', ''sat'', ''on'', ''the'', ''mat'']"
proof -
  have c: "upload_chunk_text ''the cat  sat on the mat'' 8 = [''the cat'', ''sat on the'', ''mat'']"
    by code_simp
  have s: "py_split ''the cat  sat on the mat'' = [''the'', ''cat'', ''sat'', ''on'', ''the'', ''mat'']"
    by code_simp
  from upload_chunks_partition_words [of "''the cat  sat on the mat''" 8] s c
  show ?thesis by (simp only: simp_thms)
qed

section \<open>A document that fails or is too short\<close>

lemma main_loop_append:
  "main_loop env (fs @ gs) t store =
     main_loop env gs (fst (main_loop env fs t store)) (snd (main_loop env fs t store))"
  by (induction fs arbitrary: t store) (auto simp: Let_def split: prod.splits)

lemma upload_file_zero:
  assumes "upload_file_body env f store = Inl e
     \<or> (\<exists>content. read_text env f = Inr content \<and> length (clean_content env content) < 50)"
  shows "upload_file env f store = (0, store)"
  using assms by (auto simp: upload_file_def upload_file_body_def Let_def split: sum.splits)

lemma upload_file_no_chunks:
  assumes "read_text env f = Inr content"
    and "upload_chunk_text (clean_content env content) 1000 = []"
  shows "fst (upload_file env f store) = 0"
  using assms by (auto simp: upload_file_def upload_file_body_def Let_def split: sum.splits)

text \<open>
  Claim C8. Take any document \<open>f\<close> of the sorted batch, with \<open>fs\<close> before it and \<open>gs\<close>
  after it. If the body of \<open>upload_file\<close> raises on \<open>f\<close> (reading, embedding or upserting
  fails), or the cleaned text of \<open>f\<close> is shorter than the 50-character floor, or it
  yields no chunk at all, then \<open>upload_file\<close> returns the count 0 without raising, and
  \<open>main\<close> goes on with the documents \<open>gs\<close>, the total being what it was before \<open>f\<close>.
\<close>

theorem failed_document_counts_zero:
  assumes "sort files = fs @ f # gs"
    and "upload_file_body env f (snd (main_loop env fs 0 store)) = Inl e
     \<or> (\<exists>content. read_text env f = Inr content
           \<and> (length (clean_content env content) < 50
              \<or> upload_chunk_text (clean_content env content) 1000 = []))"
  shows "fst (upload_file env f (snd (main_loop env fs 0 store))) = 0
    \<and> main env files store =
        main_loop env gs (fst (main_loop env fs 0 store))
          (snd (upload_file env f (snd (main_loop env fs 0 store))))"
proof -
  define st where "st = snd (main_loop env fs 0 store)"
  have z: "fst (upload_file env f st) = 0"
    using assms(2) upload_file_zero [of env f st] upload_file_no_chunks [of env f _ st]
    unfolding st_def [symmetric] by fastforce
  have "main env files store = main_loop env (f # gs) (fst (main_loop env fs 0 store)) st"
    by (simp add: main_def assms(1) main_loop_append st_def)
  also have "\<dots> = main_loop env gs (fst (main_loop env fs 0 store)) (snd (upload_file env f st))"
    using z by (cases "upload_file env f st") simp
  finally show ?thesis using z unfolding st_def by simp
qed

theorem failed_document_counts_zero_witness:
  "sort [c_mdx, b_mdx, a_mdx] = [a_mdx] @ b_mdx # [c_mdx]
   \<and> upload_file_body upload_fixture b_mdx (snd (main_loop upload_fixture [a_mdx] 0 []))
       = Inl ''[Errno 13] Permission denied''
   \<and> fst (upload_file upload_fixture b_mdx (snd (main_loop upload_fixture [a_mdx] 0 []))) = 0
   \<and> main upload_fixture [c_mdx, b_mdx, a_mdx] [] =
        main_loop upload_fixture [c_mdx] (fst (main_loop upload_fixture [a_mdx] 0 []))
          (snd (upload_file upload_fixture b_mdx (snd (main_loop upload_fixture [a_mdx] 0 []))))
   \<and> fst (main upload_fixture [c_mdx, b_mdx, a_mdx] []) = 1"
proof -
  have s: "sort [c_mdx, b_mdx, a_mdx] = [a_mdx] @ b_mdx # [c_mdx]"
    by code_simp
  have b: "upload_file_body upload_fixture b_mdx (snd (main_loop upload_fixture [a_mdx] 0 []))
       = Inl ''[Errno 13] Permission denied''"
    by (simp add: upload_file_body_def upload_fixture_def)
  have t: "fst (main upload_fixture [c_mdx, b_mdx, a_mdx] []) = 1"
    by code_simp
  from failed_document_counts_zero [of "[c_mdx, b_mdx, a_mdx]" "[a_mdx]" b_mdx "[c_mdx]"
         upload_fixture "[]" "''[Errno 13] Permission denied''"] s b t
  show ?thesis by (simp only: simp_thms)
qed

end
